theory Spec2Isabelle
  imports Main "HOL-Library.Sublist"
begin

section \<open>JavaScript strings and numbers\<close>

text \<open>
  A JavaScript string is modelled as a \<^typ>\<open>string\<close> whose characters are code units below
  256. The numbers that the handlers compute with are integers (ids, page numbers,
  millisecond time stamps); they are modelled as \<^typ>\<open>int\<close>, which agrees with the double
  arithmetic of JavaScript on the safe integers (below \<open>2 ^ 53\<close>). HTTP status codes are
  \<^typ>\<open>nat\<close>.
\<close>

definition is_space :: "char \<Rightarrow> bool" where
  \<comment> \<open>The class \<open>\s\<close> of a regular expression, which is also the white space that
      \<open>parseInt\<close> skips: TAB, LF, VT, FF, CR, SP and NBSP among the code units below 256.\<close>
  "is_space c = ((of_char c :: nat) \<in> {9, 10, 11, 12, 13, 32, 160})"





definition lower_char :: "char \<Rightarrow> char" where
  "lower_char c = (let n = (of_char c :: nat) in
     if (65 \<le> n \<and> n \<le> 90) \<or> (192 \<le> n \<and> n \<le> 222 \<and> n \<noteq> 215)
     then char_of (n + 32) else c)"

definition toLowerCase :: "string \<Rightarrow> string" where
  "toLowerCase s = map lower_char s"

fun str_includes :: "string \<Rightarrow> string \<Rightarrow> bool" where
  \<comment> \<open>\<open>s.includes(t)\<close>: \<open>t\<close> occurs in \<open>s\<close> as a contiguous run.\<close>
  "str_includes [] t = (t = [])"
| "str_includes (x # xs) t = (prefix t (x # xs) \<or> str_includes xs t)"

fun leading_digit :: "nat \<Rightarrow> nat" where
  \<comment> \<open>The first character of the decimal rendering of a number.\<close>
  "leading_digit n = (if n < 10 then n else leading_digit (n div 10))"


section \<open>Error model (Utils/errorHandler.js)\<close>

record app_error =
  err_name :: string
  err_message :: string
  err_statusCode :: "nat option"
  err_status :: "string option"
  err_code :: "string option"

definition AppError :: "string \<Rightarrow> nat \<Rightarrow> app_error" where
  "AppError message statusCode =
     \<lparr> err_name = ''Error'',
       err_message = message,
       err_statusCode = Some statusCode,
       err_status = Some (if leading_digit statusCode = 4 then ''fail'' else ''error''),
       err_code = None \<rparr>"


section \<open>Stored records\<close>

text \<open>
  The tables of the relational store are lists of rows, in the order in which the store
  returns them. Time stamp columns that no handler reads (\<open>createdAt\<close>, \<open>updatedAt\<close>) are
  left out. Roles are the strings the handlers compare with.
\<close>

record user =
  user_id :: int
  user_email :: string
  user_password :: string
  user_role :: string
  user_resetToken :: "string option"
  user_resetTokenExpiry :: "int option"

record event =
  event_id :: int
  event_title :: string
  event_description :: string
  event_date :: int
  event_location :: string
  event_organizerId :: int
  event_category :: "string option"

record registration =
  reg_id :: int
  reg_userId :: int
  reg_eventId :: int

record feedback =
  fb_id :: int
  fb_userId :: int
  fb_eventId :: int
  fb_feedback :: string

record db =
  users :: "user list"
  events :: "event list"
  registrations :: "registration list"
  feedbacks :: "feedback list"

record jwt =
  jwt_id :: int
  jwt_iat :: int
  jwt_exp :: int

record mail =
  mail_to :: string
  mail_subject :: string
  mail_text :: string


section \<open>HTTP responses\<close>

datatype body =
    StatusMessage string string
  | Message string
  | UserBody user
  | TokenBody jwt
  | MessageEvent string event
  | EventsBody "event list"
  | RegistrationBody registration
  | FeedbackBody feedback

record response =
  res_status :: nat
  res_body :: body

definition respond :: "nat \<Rightarrow> body \<Rightarrow> response" where
  \<comment> \<open>\<open>res.status(code).json(b)\<close>\<close>
  "respond code b = \<lparr> res_status = code, res_body = b \<rparr>"

definition errorHandler :: "app_error \<Rightarrow> response" where
  "errorHandler err =
     (let statusCode = (case err_statusCode err of
                          None \<Rightarrow> 500 | Some c \<Rightarrow> if c = 0 then 500 else c);
          status = (case err_status err of
                      None \<Rightarrow> ''error'' | Some s \<Rightarrow> if s = [] then ''error'' else s);
          message = err_message err
      in if err_name err = ''JsonWebTokenError'' then
           respond 401 (StatusMessage status ''Invalid token. Please log in again.'')
         else if err_name err = ''TokenExpiredError'' then
           respond 401 (StatusMessage status ''Your token has expired. Please log in again.'')
         else if str_includes (err_message err) ''method not allowed'' then
           respond 405 (StatusMessage status
             ''This method is not allowed for the requested endpoint.'')
         else if err_code err = Some ''P2002'' then
           respond 400 (StatusMessage status ''Duplicate field value entered.'')
         else if str_includes (err_message err) ''not authorized'' then
           respond 403 (StatusMessage status
             ''You are not authorized to perform this action.'')
         else if str_includes (err_message err) ''not found'' then
           respond 404 (StatusMessage status ''Resource not found.'')
         else respond statusCode (StatusMessage status message))"


section \<open>The store (the calls the handlers make on the ORM client)\<close>

datatype prisma_error = P2002

definition fresh_id :: "int list \<Rightarrow> int" where
  \<comment> \<open>The next value of an auto-increment key: above every key in use.\<close>
  "fresh_id ids = 1 + foldr max ids 0"

definition user_findUnique_email :: "db \<Rightarrow> string \<Rightarrow> user option" where
  "user_findUnique_email d e = find (\<lambda>u. user_email u = e) (users d)"

definition user_findFirst_resetToken :: "db \<Rightarrow> string \<Rightarrow> user option" where
  "user_findFirst_resetToken d t = find (\<lambda>u. user_resetToken u = Some t) (users d)"

definition user_create :: "db \<Rightarrow> string \<Rightarrow> string \<Rightarrow> string \<Rightarrow> prisma_error + (db \<times> user)" where
  \<comment> \<open>The email column is unique: a second row with the same email is rejected with
      code \<open>P2002\<close>. The reset columns of a new row are null.\<close>
  "user_create d e p r =
     (if e \<in> set (map user_email (users d)) then Inl P2002
      else let u = \<lparr> user_id = fresh_id (map user_id (users d)),
                      user_email = e, user_password = p, user_role = r,
                      user_resetToken = None, user_resetTokenExpiry = None \<rparr>
           in Inr (d\<lparr> users := users d @ [u] \<rparr>, u))"

definition user_update :: "db \<Rightarrow> int \<Rightarrow> (user \<Rightarrow> user) \<Rightarrow> db" where
  \<comment> \<open>\<open>prisma.user.update({where: {id}, data})\<close>\<close>
  "user_update d i f = d\<lparr> users := map (\<lambda>u. if user_id u = i then f u else u) (users d) \<rparr>"

definition event_findUnique :: "db \<Rightarrow> int \<Rightarrow> event option" where
  "event_findUnique d i = find (\<lambda>e. event_id e = i) (events d)"

definition registration_findUnique :: "db \<Rightarrow> int \<Rightarrow> int \<Rightarrow> registration option" where
  \<comment> \<open>Lookup by the compound unique key \<open>userId_eventId\<close>.\<close>
  "registration_findUnique d uid eid =
     find (\<lambda>r. reg_userId r = uid \<and> reg_eventId r = eid) (registrations d)"

definition registration_create :: "db \<Rightarrow> int \<Rightarrow> int \<Rightarrow> db \<times> registration" where
  "registration_create d uid eid =
     (let r = \<lparr> reg_id = fresh_id (map reg_id (registrations d)),
                 reg_userId = uid, reg_eventId = eid \<rparr>
      in (d\<lparr> registrations := registrations d @ [r] \<rparr>, r))"





section \<open>Registration and login (Utils/validate.js, Routes/authRoutes.js)\<close>

record register_body =
  body_email :: "string option"
  body_password :: "string option"
  body_role :: "string option"

definition ok_char :: "char \<Rightarrow> bool" where
  \<comment> \<open>The character class \<open>[^\s@]\<close>\<close>
  "ok_char c = (\<not> is_space c \<and> c \<noteq> CHR ''@'')"

definition validateEmail :: "string \<Rightarrow> bool" where
  \<comment> \<open>\<open>/^[^\s@]+@[^\s@]+\.[^\s@]+$/.test(email)\<close>. The class excludes \<open>@\<close>, so the first
      group is the whole run before the first \<open>@\<close>; what follows the \<open>@\<close> must consist of
      characters of the class and have a dot that is neither its first nor its last
      character.\<close>
  "validateEmail e =
     (let local = takeWhile ok_char e; rest = dropWhile ok_char e
      in local \<noteq> [] \<and>
         (case rest of
            [] \<Rightarrow> False
          | c # dpart \<Rightarrow> c = CHR ''@'' \<and> list_all ok_char dpart \<and>
                         CHR ''.'' \<in> set (butlast (tl dpart))))"

definition validatePassword :: "string \<Rightarrow> bool" where
  "validatePassword p = (length p \<ge> 8)"

definition validateRegisterData :: "register_body \<Rightarrow> app_error + (string \<times> string \<times> string)" where
  \<comment> \<open>\<open>Inl err\<close> is \<open>next(err)\<close>; \<open>Inr\<close> is \<open>next()\<close>, with the three fields that the handler
      then reads from the same body.\<close>
  "validateRegisterData b =
     (case body_email b of
        None \<Rightarrow> Inl (AppError ''Valid email is required'' 400)
      | Some e \<Rightarrow>
          if e = [] \<or> \<not> validateEmail e then Inl (AppError ''Valid email is required'' 400)
          else (case body_password b of
             None \<Rightarrow> Inl (AppError ''Password must be at least 8 characters long'' 400)
           | Some p \<Rightarrow>
               if p = [] \<or> \<not> validatePassword p
               then Inl (AppError ''Password must be at least 8 characters long'' 400)
               else (case body_role b of
                  None \<Rightarrow> Inl (AppError
                    ''Valid role is required (e.g. 'ADMIN', 'ORGANIZER', 'ATTENDEE')'' 400)
                | Some r \<Rightarrow>
                    if r = [] \<or> r \<notin> set [''ADMIN'', ''ORGANIZER'', ''ATTENDEE'']
                    then Inl (AppError
                      ''Valid role is required (e.g. 'ADMIN', 'ORGANIZER', 'ATTENDEE')'' 400)
                    else Inr (e, p, r))))"

definition register_handler ::
  "(string \<Rightarrow> nat \<Rightarrow> string) \<Rightarrow> db \<Rightarrow> string \<Rightarrow> string \<Rightarrow> string \<Rightarrow> db \<times> response" where
  \<comment> \<open>The first argument stands for \<open>bcrypt.hash(password, rounds)\<close>.\<close>
  "register_handler bhash d e p r =
     (let hashedPassword = bhash p 12
      in case user_create d e hashedPassword r of
           Inr (d', u) \<Rightarrow> (d', respond 201 (UserBody u))
         | Inl P2002 \<Rightarrow> (d, errorHandler (AppError ''Email already exists'' 400)))"

definition post_register ::
  "(string \<Rightarrow> nat \<Rightarrow> string) \<Rightarrow> db \<Rightarrow> register_body \<Rightarrow> db \<times> response" where
  \<comment> \<open>\<open>router.post('/register', validateRegisterData, handler)\<close> followed by the
      application's error handler.\<close>
  "post_register bhash d b =
     (case validateRegisterData b of
        Inl err \<Rightarrow> (d, errorHandler err)
      | Inr (e, p, r) \<Rightarrow> register_handler bhash d e p r)"

definition jwt_sign :: "int \<Rightarrow> int \<Rightarrow> jwt" where
  \<comment> \<open>\<open>jwt.sign({id}, secret, {expiresIn: '1h'})\<close> at the time \<open>now\<close>, in seconds.\<close>
  "jwt_sign uid now = \<lparr> jwt_id = uid, jwt_iat = now, jwt_exp = now + 3600 \<rparr>"

definition post_login ::
  "(string \<Rightarrow> string \<Rightarrow> bool) \<Rightarrow> int \<Rightarrow> db \<Rightarrow> string \<Rightarrow> string \<Rightarrow> db \<times> response" where
  \<comment> \<open>The first argument stands for \<open>bcrypt.compare(password, hash)\<close>.\<close>
  "post_login bcompare now d e p =
     (case user_findUnique_email d e of
        None \<Rightarrow> (d, errorHandler (AppError ''Incorrect email or password'' 401))
      | Some u \<Rightarrow>
          if \<not> bcompare p (user_password u)
          then (d, errorHandler (AppError ''Incorrect email or password'' 401))
          else (d, respond 200 (TokenBody (jwt_sign (user_id u) now))))"


section \<open>Password reset (Routes/passwordRoutes.js)\<close>

definition reset_mail :: "string \<Rightarrow> string \<Rightarrow> mail" where
  \<comment> \<open>\<open>mailOptions\<close>, without the sender address taken from the environment.\<close>
  "reset_mail recipient resetToken =
     \<lparr> mail_to = recipient,
       mail_subject = ''Password Reset Request'',
       mail_text = ''Click on the following link to reset your password: '' @
                   ''http://localhost:3000/reset-password/'' @ resetToken \<rparr>"

definition post_password_reset ::
  "string \<Rightarrow> int \<Rightarrow> bool \<Rightarrow> db \<Rightarrow> string \<Rightarrow> db \<times> mail option \<times> response" where
  \<comment> \<open>\<open>resetToken\<close> is the value \<open>uuidv4()\<close> returns, \<open>now\<close> is \<open>Date.now()\<close> in milliseconds,
      and \<open>mail_error\<close> tells whether the mail transport calls back with an error. The
      result holds the store after the request, the mail handed to the transport (if
      any) and the response.\<close>
  "post_password_reset resetToken now mail_error d e =
     (case user_findUnique_email d e of
        None \<Rightarrow> (d, None, respond 404 (Message ''User not found''))
      | Some u \<Rightarrow>
          let d' = user_update d (user_id u)
                     (\<lambda>r. r\<lparr> user_resetToken := Some resetToken,
                              user_resetTokenExpiry := Some (now + 3600000) \<rparr>);
              mailOptions = reset_mail (user_email u) resetToken
          in if mail_error
             then (d', Some mailOptions,
                   respond 500 (Message ''Failed to send password reset email''))
             else (d', Some mailOptions, respond 200 (Message ''Password reset email sent'')))"

definition expiry_before :: "int option \<Rightarrow> int \<Rightarrow> bool" where
  \<comment> \<open>\<open>user.resetTokenExpiry < new Date()\<close>: both sides are converted to numbers, and
      \<open>null\<close> converts to 0.\<close>
  "expiry_before expiry now = ((case expiry of None \<Rightarrow> 0 | Some t \<Rightarrow> t) < now)"

definition post_reset_password ::
  "(string \<Rightarrow> nat \<Rightarrow> string) \<Rightarrow> int \<Rightarrow> db \<Rightarrow> string \<Rightarrow> string \<Rightarrow> db \<times> response" where
  \<comment> \<open>\<open>now\<close> is the time of \<open>new Date()\<close> in milliseconds; the request body carries
      \<open>newPassword\<close> as a string.\<close>
  "post_reset_password bhash now d resetToken newPassword =
     (case user_findFirst_resetToken d resetToken of
        None \<Rightarrow> (d, respond 400 (Message ''Invalid or expired reset token''))
      | Some u \<Rightarrow>
          if expiry_before (user_resetTokenExpiry u) now
          then (d, respond 400 (Message ''Invalid or expired reset token''))
          else
            let hashedPassword = bhash newPassword 10;
                d' = user_update d (user_id u)
                       (\<lambda>r. r\<lparr> user_password := hashedPassword,
                                user_resetToken := None,
                                user_resetTokenExpiry := None \<rparr>)
            in (d', respond 200 (Message ''Password reset successful'')))"


section \<open>Events (Routes/eventRoutes.js)\<close>


record event_patch =
  patch_title :: string
  patch_description :: string
  patch_date :: int
  patch_location :: string

definition apply_patch :: "event_patch \<Rightarrow> event \<Rightarrow> event" where
  "apply_patch b ev =
     ev\<lparr> event_title := patch_title b, event_description := patch_description b,
         event_date := patch_date b, event_location := patch_location b \<rparr>"

definition put_event :: "db \<Rightarrow> user \<Rightarrow> int \<Rightarrow> event_patch \<Rightarrow> db \<times> response" where
  "put_event d req_user eventId b =
     (if user_role req_user = ''ATTENDEE''
      then (d, errorHandler
                 (AppError ''You do not have permission to perform this action'' 403))
      else case event_findUnique d eventId of
             None \<Rightarrow> (d, respond 404 (Message ''Event not found''))
           | Some ev \<Rightarrow>
               if event_organizerId ev \<noteq> user_id req_user \<and> user_role req_user \<noteq> ''ADMIN''
               then (d, respond 403 (Message
                      ''Forbidden: You do not have permission to update this event''))
               else
                 let updatedEvent = apply_patch b ev;
                     d' = d\<lparr> events := map (\<lambda>e. if event_id e = eventId
                                                   then apply_patch b e else e) (events d) \<rparr>
                 in (d', respond 200
                           (MessageEvent ''Event updated successfully'' updatedEvent)))"

definition delete_event :: "db \<Rightarrow> user \<Rightarrow> int \<Rightarrow> db \<times> response" where
  "delete_event d req_user eventId =
     (if user_role req_user = ''ATTENDEE''
      then (d, errorHandler
                 (AppError ''You do not have permission to perform this action'' 403))
      else case event_findUnique d eventId of
             None \<Rightarrow> (d, respond 404 (Message ''Event not found''))
           | Some ev \<Rightarrow>
               if event_organizerId ev \<noteq> user_id req_user \<and> user_role req_user \<noteq> ''ADMIN''
               then (d, respond 403 (Message
                      ''Forbidden: You do not have permission to delete this event''))
               else
                 let d1 = d\<lparr> registrations :=
                              filter (\<lambda>r. reg_eventId r \<noteq> eventId) (registrations d) \<rparr>;
                     d2 = d1\<lparr> events := filter (\<lambda>e. event_id e \<noteq> eventId) (events d1) \<rparr>
                 in (d2, respond 200 (Message ''Event deleted successfully'')))"

datatype qvalue = QStr string | QArr "qvalue list" | QObj

fun join_comma :: "string list \<Rightarrow> string" where
  "join_comma [] = []"
| "join_comma [s] = s"
| "join_comma (s # t # ss) = s @ '','' @ join_comma (t # ss)"

fun q_toString :: "qvalue \<Rightarrow> string" where
  \<comment> \<open>\<open>toString()\<close> of a parsed query value: a string, an array or an object.\<close>
  "q_toString (QStr s) = s"
| "q_toString (QArr vs) = join_comma (map q_toString vs)"
| "q_toString QObj = ''[object Object]''"

fun q_truthy :: "qvalue option \<Rightarrow> bool" where
  "q_truthy None = False"
| "q_truthy (Some (QStr s)) = (s \<noteq> [])"
| "q_truthy (Some v) = True"

record events_query =
  q_category :: "qvalue option"
  q_location :: "qvalue option"
  q_sortBy :: "qvalue option"
  q_sortOrder :: "qvalue option"

record findMany_args =
  where_category :: "string option"
  where_location :: "string option"
  arg_orderBy :: "(string \<times> string) option"

definition sort_direction :: "qvalue option \<Rightarrow> string" where
  \<comment> \<open>\<open>sortOrder?.toString().toLowerCase() === 'desc' ? 'desc' : 'asc'\<close>\<close>
  "sort_direction sortOrder =
     (if (case sortOrder of None \<Rightarrow> False
                          | Some v \<Rightarrow> toLowerCase (q_toString v) = ''desc'')
      then ''desc'' else ''asc'')"

definition build_orderBy :: "qvalue option \<Rightarrow> qvalue option \<Rightarrow> (string \<times> string) option" where
  \<comment> \<open>The object \<open>orderBy\<close> after the assignment under \<open>if (sortBy)\<close>, or \<open>None\<close> when it
      has no key of its own and \<open>undefined\<close> is passed on. Assigning a string to the key
      \<open>__proto__\<close> of an object adds no key.\<close>
  "build_orderBy sortBy sortOrder =
     (case sortBy of
        None \<Rightarrow> None
      | Some v \<Rightarrow>
          if q_truthy sortBy \<and> q_toString v \<noteq> ''__proto__''
          then Some (q_toString v, sort_direction sortOrder)
          else None)"

definition get_events_args :: "events_query \<Rightarrow> findMany_args" where
  \<comment> \<open>The argument that the list handler passes to \<open>prisma.event.findMany\<close>.\<close>
  "get_events_args q =
     \<lparr> where_category = (if q_truthy (q_category q)
                          then map_option q_toString (q_category q) else None),
       where_location = (if q_truthy (q_location q)
                          then map_option q_toString (q_location q) else None),
       arg_orderBy = build_orderBy (q_sortBy q) (q_sortOrder q) \<rparr>"


definition post_event_register :: "db \<Rightarrow> user \<Rightarrow> int \<Rightarrow> db \<times> response" where
  "post_event_register d req_user eventId =
     (let userId = user_id req_user
      in case event_findUnique d eventId of
           None \<Rightarrow> (d, errorHandler (AppError ''Event not found'' 404))
         | Some ev \<Rightarrow>
             (case registration_findUnique d userId eventId of
                Some existingRegistration \<Rightarrow>
                  (d, errorHandler (AppError ''You are already registered for this event'' 400))
              | None \<Rightarrow>
                  let (d', newRegistration) = registration_create d userId eventId
                  in (d', respond 201 (RegistrationBody newRegistration))))"



section \<open>Example data\<close>

text \<open>
  A small store and stand-ins for the hashing library, used to run the handlers on
  concrete requests.
\<close>

definition example_hash :: "string \<Rightarrow> nat \<Rightarrow> string" where
  "example_hash p rounds = ''$2b$'' @ rev p"

definition example_compare :: "string \<Rightarrow> string \<Rightarrow> bool" where
  "example_compare p h = (h = ''$2b$'' @ rev p)"

definition alice :: user where
  "alice = \<lparr> user_id = 1, user_email = ''alice@example.com'',
             user_password = ''$2b$321drowssap'', user_role = ''ATTENDEE'',
             user_resetToken = Some ''tok-1'', user_resetTokenExpiry = Some 5000 \<rparr>"

definition olga :: user where
  "olga = \<lparr> user_id = 2, user_email = ''olga@example.com'',
            user_password = ''$2b$321drowssap'', user_role = ''ORGANIZER'',
            user_resetToken = None, user_resetTokenExpiry = None \<rparr>"

definition adam :: user where
  "adam = \<lparr> user_id = 3, user_email = ''adam@example.com'',
            user_password = ''$2b$321drowssap'', user_role = ''ADMIN'',
            user_resetToken = Some ''tok-3'', user_resetTokenExpiry = Some 1000 \<rparr>"

definition party :: event where
  "party = \<lparr> event_id = 1, event_title = ''T'', event_description = ''D'',
             event_date = 0, event_location = ''L'', event_organizerId = 2,
             event_category = None \<rparr>"

definition example_db :: db where
  "example_db = \<lparr> users = [alice, olga, adam], events = [party],
                  registrations = [\<lparr> reg_id = 1, reg_userId = 1, reg_eventId = 1 \<rparr>],
                  feedbacks = [] \<rparr>"

definition oscar :: user where
  "oscar = \<lparr> user_id = 5, user_email = ''oscar@example.com'',
             user_password = ''$2b$321drowssap'', user_role = ''ORGANIZER'',
             user_resetToken = None, user_resetTokenExpiry = None \<rparr>"

definition example_patch :: event_patch where
  "example_patch = \<lparr> patch_title = ''T2'', patch_description = ''D2'', patch_date = 7,
                     patch_location = ''L2'' \<rparr>"


section \<open>Rows of a pair of user and event\<close>

text \<open>
  The registration rows and the feedback rows that the store holds for a user and an
  event, in which the properties below count rows.
\<close>

definition regs_of :: "db \<Rightarrow> int \<Rightarrow> int \<Rightarrow> registration list" where
  "regs_of d uid eid = filter (\<lambda>r. reg_userId r = uid \<and> reg_eventId r = eid) (registrations d)"



section \<open>Properties\<close>

lemmas example_defs = example_db_def alice_def olga_def adam_def party_def
  example_hash_def example_compare_def

subsection \<open>Login\<close>

lemma errorHandler_login:
  "errorHandler (AppError ''Incorrect email or password'' 401)
   = respond 401 (StatusMessage ''fail'' ''Incorrect email or password'')"
  by (simp add: errorHandler_def AppError_def)

text \<open>
  Claim C2. A login fails in the same way whether no user has the email or the password
  does not match the stored hash: the response is 401 with the status \<open>fail\<close> and the
  message \<open>Incorrect email or password\<close> in both cases, and the store is unchanged.
\<close>

theorem login_failure_uniform:
  assumes "case user_findUnique_email d e of
             None \<Rightarrow> True | Some u \<Rightarrow> \<not> bcompare p (user_password u)"
  shows "post_login bcompare now d e p
         = (d, respond 401 (StatusMessage ''fail'' ''Incorrect email or password''))"
  using assms by (simp add: post_login_def errorHandler_login split: option.splits)

theorem login_failure_uniform_witness:
  "post_login example_compare 0 example_db ''nobody@example.com'' ''password123''
     = (example_db, respond 401 (StatusMessage ''fail'' ''Incorrect email or password''))
   \<and> post_login example_compare 0 example_db ''alice@example.com'' ''letmein''
     = (example_db, respond 401 (StatusMessage ''fail'' ''Incorrect email or password''))"
proof -
  have unknown: "case user_findUnique_email example_db ''nobody@example.com'' of
                   None \<Rightarrow> True | Some u \<Rightarrow> \<not> example_compare ''password123'' (user_password u)"
    by (simp add: user_findUnique_email_def example_defs)
  have mismatch: "case user_findUnique_email example_db ''alice@example.com'' of
                   None \<Rightarrow> True | Some u \<Rightarrow> \<not> example_compare ''letmein'' (user_password u)"
    by (simp add: user_findUnique_email_def example_defs)
  show ?thesis
    using login_failure_uniform [where bcompare = example_compare and now = 0, OF unknown]
      login_failure_uniform [where bcompare = example_compare and now = 0, OF mismatch]
    by simp
qed

subsection \<open>Registration of a user\<close>

lemma errorHandler_email_exists:
  "errorHandler (AppError ''Email already exists'' 400)
   = respond 400 (StatusMessage ''fail'' ''Email already exists'')"
  by (simp add: errorHandler_def AppError_def)

lemma errorHandler_status_validation:
  "res_status (errorHandler (AppError ''Valid email is required'' 400)) = 400"
  "res_status (errorHandler (AppError ''Password must be at least 8 characters long'' 400)) = 400"
  "res_status (errorHandler (AppError
     ''Valid role is required (e.g. 'ADMIN', 'ORGANIZER', 'ATTENDEE')'' 400)) = 400"
  by (simp_all add: errorHandler_def AppError_def respond_def)

lemma validateRegisterData_Inl_status:
  "validateRegisterData b = Inl err \<Longrightarrow> res_status (errorHandler err) = 400"
  by (auto simp: validateRegisterData_def errorHandler_status_validation
           split: option.splits if_splits)

lemma validateRegisterData_Inr:
  "validateRegisterData b = Inr (e, p, r) \<Longrightarrow>
     body_email b = Some e \<and> body_password b = Some p \<and> body_role b = Some r
     \<and> validateEmail e \<and> 8 \<le> length p \<and> r \<in> {''ADMIN'', ''ORGANIZER'', ''ATTENDEE''}"
  by (auto simp: validateRegisterData_def validatePassword_def
           split: option.splits if_splits)

text \<open>
  Claim C1, as the code has it. A registration that answers 201 passed the validation and
  created a row; the body of the response is that row as it is stored, with its
  \<open>password\<close> field, which holds the value of \<open>bcrypt.hash(password, 12)\<close>.
\<close>

theorem register_returns_stored_row:
  assumes "post_register bhash d b = (d', r)" and "res_status r = 201"
  shows "\<exists>e p ro u.
           body_email b = Some e \<and> body_password b = Some p \<and> body_role b = Some ro
           \<and> r = respond 201 (UserBody u)
           \<and> users d' = users d @ [u]
           \<and> user_email u = e \<and> user_role u = ro
           \<and> user_password u = bhash p 12"
proof (cases "validateRegisterData b")
  case (Inl err)
  with assms validateRegisterData_Inl_status [OF Inl] show ?thesis
    by (simp add: post_register_def)
next
  case (Inr t)
  obtain e p ro where t: "t = (e, p, ro)" by (cases t) auto
  note v = validateRegisterData_Inr [OF Inr [unfolded t]]
  from assms Inr t have h: "register_handler bhash d e p ro = (d', r)"
    by (simp add: post_register_def)
  show ?thesis
  proof (cases "e \<in> set (map user_email (users d))")
    case True
    with h assms(2) show ?thesis
      by (auto simp: register_handler_def user_create_def errorHandler_email_exists respond_def)
  next
    case False
    with h v show ?thesis
      by (auto simp: register_handler_def user_create_def Let_def)
  qed
qed

theorem register_returns_stored_row_witness:
  "post_register example_hash example_db
     \<lparr> body_email = Some ''a@x.com'', body_password = Some ''pw123456'',
       body_role = Some ''ATTENDEE'' \<rparr>
   = (example_db\<lparr> users := users example_db @
        [\<lparr> user_id = 4, user_email = ''a@x.com'', user_password = ''$2b$654321wp'',
           user_role = ''ATTENDEE'', user_resetToken = None,
           user_resetTokenExpiry = None \<rparr>] \<rparr>,
      respond 201 (UserBody
        \<lparr> user_id = 4, user_email = ''a@x.com'', user_password = ''$2b$654321wp'',
          user_role = ''ATTENDEE'', user_resetToken = None,
          user_resetTokenExpiry = None \<rparr>))
   \<and> (\<exists>u. users (example_db\<lparr> users := users example_db @
        [\<lparr> user_id = 4, user_email = ''a@x.com'', user_password = ''$2b$654321wp'',
           user_role = ''ATTENDEE'', user_resetToken = None,
           user_resetTokenExpiry = None \<rparr>] \<rparr>) = users example_db @ [u]
         \<and> user_password u = example_hash ''pw123456'' 12)"
proof -
  have run: "post_register example_hash example_db
     \<lparr> body_email = Some ''a@x.com'', body_password = Some ''pw123456'',
       body_role = Some ''ATTENDEE'' \<rparr>
   = (example_db\<lparr> users := users example_db @
        [\<lparr> user_id = 4, user_email = ''a@x.com'', user_password = ''$2b$654321wp'',
           user_role = ''ATTENDEE'', user_resetToken = None,
           user_resetTokenExpiry = None \<rparr>] \<rparr>,
      respond 201 (UserBody
        \<lparr> user_id = 4, user_email = ''a@x.com'', user_password = ''$2b$654321wp'',
          user_role = ''ATTENDEE'', user_resetToken = None,
          user_resetTokenExpiry = None \<rparr>))"
    by (simp add: post_register_def validateRegisterData_def validateEmail_def ok_char_def
          is_space_def validatePassword_def register_handler_def user_create_def fresh_id_def
          Let_def example_defs)
  have ok: "res_status (respond 201 (UserBody
        \<lparr> user_id = 4, user_email = ''a@x.com'', user_password = ''$2b$654321wp'',
          user_role = ''ATTENDEE'', user_resetToken = None,
          user_resetTokenExpiry = None \<rparr>)) = 201"
    by (simp add: respond_def)
  from register_returns_stored_row [OF run ok] run show ?thesis
    by (auto simp: respond_def)
qed

text \<open>
  The response to a successful registration carries the stored hash: the handler sends the
  created row without removing any field.
\<close>

theorem register_response_has_hash:
  "res_status (snd (post_register example_hash
       \<lparr> users = [], events = [], registrations = [], feedbacks = [] \<rparr>
       \<lparr> body_email = Some ''a@x.com'', body_password = Some ''pw123456'',
         body_role = Some ''ATTENDEE'' \<rparr>)) = 201
   \<and> res_body (snd (post_register example_hash
       \<lparr> users = [], events = [], registrations = [], feedbacks = [] \<rparr>
       \<lparr> body_email = Some ''a@x.com'', body_password = Some ''pw123456'',
         body_role = Some ''ATTENDEE'' \<rparr>))
     = UserBody \<lparr> user_id = 1, user_email = ''a@x.com'', user_password = ''$2b$654321wp'',
          user_role = ''ATTENDEE'', user_resetToken = None,
          user_resetTokenExpiry = None \<rparr>
   \<and> example_hash ''pw123456'' 12 = ''$2b$654321wp''"
  by (simp add: post_register_def validateRegisterData_def validateEmail_def ok_char_def
        is_space_def validatePassword_def register_handler_def user_create_def fresh_id_def
        Let_def example_defs respond_def)

subsection \<open>Consuming a reset token\<close>

lemma find_only_holder:
  assumes "u \<in> set xs" and "P u" and "\<forall>v\<in>set xs. P v \<longrightarrow> v = u"
  shows "find P xs = Some u"
  using assms
proof (induction xs)
  case Nil
  then show ?case by simp
next
  case (Cons a xs)
  show ?case
  proof (cases "P a")
    case True
    with Cons.prems(3) have "a = u" by simp
    with True show ?thesis by simp
  next
    case False
    with Cons.prems(1,2) have "u \<in> set xs" by auto
    moreover from Cons.prems(3) have "\<forall>v\<in>set xs. P v \<longrightarrow> v = u" by simp
    ultimately have "find P xs = Some u" using Cons.IH Cons.prems(2) by blast
    with False show ?thesis by simp
  qed
qed

lemma reset_rejected_no_holder:
  assumes "\<forall>v\<in>set (users d). user_resetToken v \<noteq> Some t"
  shows "post_reset_password bhash now d t p
         = (d, respond 400 (Message ''Invalid or expired reset token''))"
proof -
  from assms have "user_findFirst_resetToken d t = None"
    by (simp add: user_findFirst_resetToken_def find_None_iff)
  then show ?thesis by (simp add: post_reset_password_def)
qed

lemma reset_rejected_expired:
  assumes "user_findFirst_resetToken d t = Some w"
    and "user_resetTokenExpiry w = Some ex" and "ex < now"
  shows "post_reset_password bhash now d t p
         = (d, respond 400 (Message ''Invalid or expired reset token''))"
  using assms by (simp add: post_reset_password_def expiry_before_def)

lemma reset_accepted:
  assumes "u \<in> set (users d)" and "user_resetToken u = Some t"
    and "\<forall>v\<in>set (users d). user_resetToken v = Some t \<longrightarrow> v = u"
    and "user_resetTokenExpiry u = Some ex" and "now \<le> ex"
  shows "post_reset_password bhash now d t p
         = (user_update d (user_id u)
              (\<lambda>r. r\<lparr> user_password := bhash p 10, user_resetToken := None,
                       user_resetTokenExpiry := None \<rparr>),
            respond 200 (Message ''Password reset successful''))"
proof -
  from assms(1-3) have "user_findFirst_resetToken d t = Some u"
    unfolding user_findFirst_resetToken_def by (rule find_only_holder)
  with assms(4,5) show ?thesis
    by (simp add: post_reset_password_def expiry_before_def)
qed

lemma reset_no_holder_left:
  assumes "\<forall>v\<in>set (users d). user_resetToken v = Some t \<longrightarrow> v = u"
  shows "\<forall>v\<in>set (users (user_update d (user_id u)
              (\<lambda>r. r\<lparr> user_password := h, user_resetToken := None,
                       user_resetTokenExpiry := None \<rparr>))). user_resetToken v \<noteq> Some t"
  using assms by (auto simp: user_update_def)

lemma user_update_distinct:
  assumes "distinct (map user_id (users d))" and "u \<in> set (users d)"
  shows "users (user_update d (user_id u) f)
         = map (\<lambda>v. if v = u then f u else v) (users d)"
proof -
  from assms(1) have inj: "inj_on user_id (set (users d))"
    by (simp add: distinct_map)
  have "map (\<lambda>v. if user_id v = user_id u then f v else v) (users d)
        = map (\<lambda>v. if v = u then f u else v) (users d)"
  proof (rule map_cong [OF refl])
    fix v assume "v \<in> set (users d)"
    with inj assms(2) have "user_id v = user_id u \<Longrightarrow> v = u"
      by (simp add: inj_on_def)
    then show "(if user_id v = user_id u then f v else v) = (if v = u then f u else v)"
      by (cases "v = u") auto
  qed
  then show ?thesis
    by (simp add: user_update_def)
qed


text \<open>
  The whole flow: a reset requested with a token that no row holds yet, and consumed
  within the hour, is accepted once; the same token is rejected afterwards.
\<close>

lemma reset_round_trip:
  fixes d :: db and tok :: string and now now' :: int and mail_error :: bool
    and bhash :: "string \<Rightarrow> nat \<Rightarrow> string" and p :: string and e :: string
  assumes ids: "distinct (map user_id (users d))"
    and found: "user_findUnique_email d e = Some u"
    and fresh: "\<forall>v\<in>set (users d). user_resetToken v \<noteq> Some tok"
    and intime: "now' \<le> now + 3600000"
  defines "d1 \<equiv> fst (post_password_reset tok now mail_error d e)"
  defines "d2 \<equiv> fst (post_reset_password bhash now' d1 tok p)"
  shows "post_reset_password bhash now' d1 tok p
           = (d2, respond 200 (Message ''Password reset successful''))"
    and "users d2 = map (\<lambda>v. if v = u
                              then u\<lparr> user_password := bhash p 10, user_resetToken := None,
                                      user_resetTokenExpiry := None \<rparr>
                              else v) (users d)"
    and "post_reset_password bhash now'' d2 tok p'
           = (d2, respond 400 (Message ''Invalid or expired reset token''))"
proof -
  let ?set = "\<lambda>r. r\<lparr> user_resetToken := Some tok,
                      user_resetTokenExpiry := Some (now + 3600000) \<rparr>"
  let ?clr = "\<lambda>r. r\<lparr> user_password := bhash p 10, user_resetToken := None,
                      user_resetTokenExpiry := None \<rparr>"
  from found have u: "u \<in> set (users d)"
    by (auto simp: user_findUnique_email_def find_Some_iff)
  from found have d1: "d1 = user_update d (user_id u) ?set"
    by (simp add: d1_def post_password_reset_def Let_def)
  have rows1: "users d1 = map (\<lambda>v. if v = u then ?set u else v) (users d)"
    unfolding d1 using ids u by (rule user_update_distinct)
  from u have holder: "?set u \<in> set (users d1)"
    by (auto simp: rows1)
  from fresh have only: "\<forall>v\<in>set (users d1). user_resetToken v = Some tok \<longrightarrow> v = ?set u"
    by (auto simp: rows1)
  from intime have accepted: "post_reset_password bhash now' d1 tok p
        = (user_update d1 (user_id (?set u)) ?clr,
           respond 200 (Message ''Password reset successful''))"
    by (intro reset_accepted [OF holder _ only]) simp_all
  then have d2: "d2 = user_update d1 (user_id u) ?clr"
    by (simp add: d2_def)
  from accepted show "post_reset_password bhash now' d1 tok p
           = (d2, respond 200 (Message ''Password reset successful''))"
    by (simp add: d2)
  have "users d2 = map ((\<lambda>v. if user_id v = user_id u then ?clr v else v)
                         \<circ> (\<lambda>v. if user_id v = user_id u then ?set v else v)) (users d)"
    by (simp add: d2 d1 user_update_def)
  also have "\<dots> = map (\<lambda>v. if user_id v = user_id u then ?clr v else v) (users d)"
    by (rule map_cong [OF refl]) simp
  also have "\<dots> = users (user_update d (user_id u) ?clr)"
    by (simp add: user_update_def)
  also have "\<dots> = map (\<lambda>v. if v = u then ?clr u else v) (users d)"
    using ids u by (rule user_update_distinct)
  finally show "users d2 = map (\<lambda>v. if v = u then ?clr u else v) (users d)" .
  from only have "\<forall>v\<in>set (users d2). user_resetToken v \<noteq> Some tok"
    unfolding d2 using reset_no_holder_left [of d1 tok "?set u" "bhash p 10"] by simp
  then show "post_reset_password bhash now'' d2 tok p'
           = (d2, respond 400 (Message ''Invalid or expired reset token''))"
    by (rule reset_rejected_no_holder)
qed

text \<open>
  Claim C3. Let the reset token \<open>t\<close> be held by the user \<open>u\<close> and by no other row, with
  an expiry that is not in the past. Then the request succeeds with 200, the row of \<open>u\<close>
  gets the hash of the new password and null reset fields while every other row is
  unchanged, and every later request with the same token, at any time and with any
  password, is rejected with 400 and changes nothing. A token that no row holds is
  rejected with 400, and so is a token whose holder's expiry is in the past.
\<close>

theorem reset_token_single_use:
  "(u \<in> set (users d) \<and> user_resetToken u = Some t
      \<and> (\<forall>v\<in>set (users d). user_resetToken v = Some t \<longrightarrow> v = u)
      \<and> distinct (map user_id (users d))
      \<and> user_resetTokenExpiry u = Some ex \<and> now \<le> ex
    \<longrightarrow> (\<exists>d'. post_reset_password bhash now d t p
                 = (d', respond 200 (Message ''Password reset successful''))
             \<and> users d' = map (\<lambda>v. if v = u
                                    then u\<lparr> user_password := bhash p 10,
                                            user_resetToken := None,
                                            user_resetTokenExpiry := None \<rparr>
                                    else v) (users d)
             \<and> (\<forall>now' p'. post_reset_password bhash now' d' t p'
                   = (d', respond 400 (Message ''Invalid or expired reset token'')))))
   \<and> ((\<forall>v\<in>set (users d). user_resetToken v \<noteq> Some t)
    \<longrightarrow> post_reset_password bhash now d t p
          = (d, respond 400 (Message ''Invalid or expired reset token'')))
   \<and> (user_findFirst_resetToken d t = Some w
      \<and> user_resetTokenExpiry w = Some ex \<and> ex < now
    \<longrightarrow> post_reset_password bhash now d t p
          = (d, respond 400 (Message ''Invalid or expired reset token'')))"
proof (intro conjI impI)
  assume h: "u \<in> set (users d) \<and> user_resetToken u = Some t
      \<and> (\<forall>v\<in>set (users d). user_resetToken v = Some t \<longrightarrow> v = u)
      \<and> distinct (map user_id (users d))
      \<and> user_resetTokenExpiry u = Some ex \<and> now \<le> ex"
  let ?f = "\<lambda>r. r\<lparr> user_password := bhash p 10, user_resetToken := None,
                    user_resetTokenExpiry := None \<rparr>"
  let ?d' = "user_update d (user_id u) ?f"
  from h have first: "post_reset_password bhash now d t p
        = (?d', respond 200 (Message ''Password reset successful''))"
    by (intro reset_accepted) auto
  from h have rows: "users ?d' = map (\<lambda>v. if v = u then ?f u else v) (users d)"
    by (intro user_update_distinct) auto
  from h have "\<forall>v\<in>set (users ?d'). user_resetToken v \<noteq> Some t"
    by (intro reset_no_holder_left) auto
  then have again: "\<forall>now' p'. post_reset_password bhash now' ?d' t p'
        = (?d', respond 400 (Message ''Invalid or expired reset token''))"
    by (intro allI reset_rejected_no_holder)
  from first rows again
  show "\<exists>d'. post_reset_password bhash now d t p
                 = (d', respond 200 (Message ''Password reset successful''))
             \<and> users d' = map (\<lambda>v. if v = u then ?f u else v) (users d)
             \<and> (\<forall>now' p'. post_reset_password bhash now' d' t p'
                   = (d', respond 400 (Message ''Invalid or expired reset token'')))"
    by blast
next
  assume "\<forall>v\<in>set (users d). user_resetToken v \<noteq> Some t"
  then show "post_reset_password bhash now d t p
          = (d, respond 400 (Message ''Invalid or expired reset token''))"
    by (rule reset_rejected_no_holder)
next
  assume "user_findFirst_resetToken d t = Some w
      \<and> user_resetTokenExpiry w = Some ex \<and> ex < now"
  then show "post_reset_password bhash now d t p
          = (d, respond 400 (Message ''Invalid or expired reset token''))"
    by (auto intro: reset_rejected_expired)
qed

theorem reset_token_single_use_witness:
  "res_status (snd (post_reset_password example_hash 4000 example_db ''tok-1'' ''newpass1'')) = 200
   \<and> users (fst (post_reset_password example_hash 4000 example_db ''tok-1'' ''newpass1''))
       = [alice\<lparr> user_password := example_hash ''newpass1'' 10, user_resetToken := None,
                 user_resetTokenExpiry := None \<rparr>, olga, adam]
   \<and> res_status (snd (post_reset_password example_hash 4500
         (fst (post_reset_password example_hash 4000 example_db ''tok-1'' ''newpass1''))
         ''tok-1'' ''another1'')) = 400
   \<and> res_status (snd (post_reset_password example_hash 4000 example_db ''nope'' ''newpass1''))
       = 400
   \<and> res_status (snd (post_reset_password example_hash 4000 example_db ''tok-3'' ''newpass1''))
       = 400"
proof -
  have h1: "alice \<in> set (users example_db) \<and> user_resetToken alice = Some ''tok-1''
      \<and> (\<forall>v\<in>set (users example_db). user_resetToken v = Some ''tok-1'' \<longrightarrow> v = alice)
      \<and> distinct (map user_id (users example_db))
      \<and> user_resetTokenExpiry alice = Some 5000 \<and> (4000::int) \<le> 5000"
    by (simp add: example_db_def alice_def olga_def adam_def)
  have h2: "\<forall>v\<in>set (users example_db). user_resetToken v \<noteq> Some ''nope''"
    by (simp add: example_db_def alice_def olga_def adam_def)
  have h3: "user_findFirst_resetToken example_db ''tok-3'' = Some adam
      \<and> user_resetTokenExpiry adam = Some 1000 \<and> (1000::int) < 4000"
    by (simp add: user_findFirst_resetToken_def example_db_def alice_def olga_def adam_def)
  from reset_token_single_use [where u = alice and d = example_db and t = "''tok-1''"
      and ex = 5000 and now = 4000 and bhash = example_hash and p = "''newpass1''",
      THEN conjunct1, THEN mp, OF h1]
  obtain d' where
    first: "post_reset_password example_hash 4000 example_db ''tok-1'' ''newpass1''
            = (d', respond 200 (Message ''Password reset successful''))"
    and rows: "users d' = map (\<lambda>v. if v = alice
                 then alice\<lparr> user_password := example_hash ''newpass1'' 10,
                             user_resetToken := None, user_resetTokenExpiry := None \<rparr>
                 else v) (users example_db)"
    and again: "\<And>now' p'. post_reset_password example_hash now' d' ''tok-1'' p'
            = (d', respond 400 (Message ''Invalid or expired reset token''))"
    by blast
  from rows have rows': "users d' = [alice\<lparr> user_password := example_hash ''newpass1'' 10,
                 user_resetToken := None, user_resetTokenExpiry := None \<rparr>, olga, adam]"
    by (simp add: example_db_def alice_def olga_def adam_def)
  from reset_token_single_use [where d = example_db and t = "''nope''"
      and now = 4000 and bhash = example_hash and p = "''newpass1''",
      THEN conjunct2, THEN conjunct1, THEN mp, OF h2]
  have none: "post_reset_password example_hash 4000 example_db ''nope'' ''newpass1''
            = (example_db, respond 400 (Message ''Invalid or expired reset token''))" .
  from reset_token_single_use [where d = example_db and t = "''tok-3''" and w = adam
      and ex = 1000 and now = 4000 and bhash = example_hash and p = "''newpass1''",
      THEN conjunct2, THEN conjunct2, THEN mp, OF h3]
  have expired: "post_reset_password example_hash 4000 example_db ''tok-3'' ''newpass1''
            = (example_db, respond 400 (Message ''Invalid or expired reset token''))" .
  show ?thesis
    by (simp add: first rows' again none expired respond_def)
qed





subsection \<open>Requesting a reset\<close>

lemma find_email_after_update:
  assumes "\<And>r. user_email (f r) = user_email r"
  shows "find (\<lambda>v. user_email v = e) (map (\<lambda>v. if user_id v = i then f v else v) xs)
         = map_option (\<lambda>v. if user_id v = i then f v else v) (find (\<lambda>v. user_email v = e) xs)"
  by (induction xs) (simp_all add: assms)

text \<open>
  Claim C9. When a user has the email, the request stores the token and the expiry
  \<open>now + 3600000\<close> milliseconds on that user's row and hands a mail with the reset link
  to the transport; the store after the request is the same whether the transport then
  reports an error (answer 500) or not (answer 200), so the stored token and expiry stay
  after a failed delivery. When no user has the email, the answer is 404, no mail is
  handed over and the store is unchanged.
\<close>

theorem request_reset_persists_token:
  "(user_findUnique_email d e = Some u \<longrightarrow>
      post_password_reset tok now mail_error d e
        = (user_update d (user_id u)
             (\<lambda>r. r\<lparr> user_resetToken := Some tok,
                      user_resetTokenExpiry := Some (now + 3600000) \<rparr>),
           Some (reset_mail (user_email u) tok),
           respond (if mail_error then 500 else 200)
             (Message (if mail_error then ''Failed to send password reset email''
                       else ''Password reset email sent'')))
      \<and> user_findUnique_email (fst (post_password_reset tok now mail_error d e)) e
        = Some (u\<lparr> user_resetToken := Some tok,
                   user_resetTokenExpiry := Some (now + 3600000) \<rparr>)
      \<and> fst (post_password_reset tok now True d e)
        = fst (post_password_reset tok now False d e))
   \<and> (user_findUnique_email d e = None \<longrightarrow>
      post_password_reset tok now mail_error d e
        = (d, None, respond 404 (Message ''User not found'')))"
proof (intro conjI impI)
  assume found: "user_findUnique_email d e = Some u"
  let ?f = "\<lambda>r. r\<lparr> user_resetToken := Some tok,
                    user_resetTokenExpiry := Some (now + 3600000) \<rparr>"
  show run: "post_password_reset tok now mail_error d e
        = (user_update d (user_id u) ?f,
           Some (reset_mail (user_email u) tok),
           respond (if mail_error then 500 else 200)
             (Message (if mail_error then ''Failed to send password reset email''
                       else ''Password reset email sent'')))"
    using found by (simp add: post_password_reset_def Let_def)
  have "find (\<lambda>v. user_email v = e)
          (map (\<lambda>v. if user_id v = user_id u then ?f v else v) (users d))
        = map_option (\<lambda>v. if user_id v = user_id u then ?f v else v)
            (find (\<lambda>v. user_email v = e) (users d))"
    by (rule find_email_after_update) simp
  with found have "user_findUnique_email (user_update d (user_id u) ?f) e = Some (?f u)"
    by (simp add: user_findUnique_email_def user_update_def)
  then show "user_findUnique_email (fst (post_password_reset tok now mail_error d e)) e
        = Some (?f u)"
    by (simp add: run)
  show "fst (post_password_reset tok now True d e)
        = fst (post_password_reset tok now False d e)"
    using found by (simp add: post_password_reset_def Let_def)
next
  assume "user_findUnique_email d e = None"
  then show "post_password_reset tok now mail_error d e
        = (d, None, respond 404 (Message ''User not found''))"
    by (simp add: post_password_reset_def)
qed

theorem request_reset_persists_token_witness:
  "post_password_reset ''tok-2'' 1000 True example_db ''olga@example.com''
     = (example_db\<lparr> users := [alice,
            olga\<lparr> user_resetToken := Some ''tok-2'', user_resetTokenExpiry := Some 3601000 \<rparr>,
            adam] \<rparr>,
        Some (reset_mail ''olga@example.com'' ''tok-2''),
        respond 500 (Message ''Failed to send password reset email''))
   \<and> post_password_reset ''tok-2'' 1000 True example_db ''nobody@example.com''
     = (example_db, None, respond 404 (Message ''User not found''))"
proof -
  have h1: "user_findUnique_email example_db ''olga@example.com'' = Some olga"
    by (simp add: user_findUnique_email_def example_db_def alice_def olga_def adam_def)
  have h2: "user_findUnique_email example_db ''nobody@example.com'' = None"
    by (simp add: user_findUnique_email_def example_db_def alice_def olga_def adam_def)
  from request_reset_persists_token [where d = example_db and e = "''olga@example.com''"
      and u = olga and tok = "''tok-2''" and now = 1000 and mail_error = True,
      THEN conjunct1, THEN mp, OF h1]
    request_reset_persists_token [where d = example_db and e = "''nobody@example.com''"
      and tok = "''tok-2''" and now = 1000 and mail_error = True,
      THEN conjunct2, THEN mp, OF h2]
  show ?thesis
    by (simp add: user_update_def example_db_def alice_def olga_def adam_def)
qed

subsection \<open>Updating and deleting an event\<close>

lemma errorHandler_no_permission:
  "errorHandler (AppError ''You do not have permission to perform this action'' 403)
   = respond 403 (StatusMessage ''fail'' ''You do not have permission to perform this action'')"
  by (simp add: errorHandler_def AppError_def)

lemma event_findUnique_None: "event_findUnique d i = None \<longleftrightarrow> i \<notin> event_id ` set (events d)"
  by (auto simp: event_findUnique_def find_None_iff)

lemma event_findUnique_Some:
  "event_findUnique d i = Some ev \<Longrightarrow> ev \<in> set (events d) \<and> event_id ev = i"
  by (auto simp: event_findUnique_def find_Some_iff)

text \<open>
  Claim C4. An update or a deletion requested by an \<open>ATTENDEE\<close> is answered 403 whatever
  the event id is. For any other requester, an id that no event has is answered 404, and
  an event of another organizer is answered 403 unless the requester is an \<open>ADMIN\<close>; the
  owner and an \<open>ADMIN\<close> get 200. The store is unchanged by every refusal.
\<close>

theorem event_update_delete_authorization:
  "(user_role ru = ''ATTENDEE'' \<longrightarrow>
      put_event d ru i b = (d, respond 403 (StatusMessage ''fail''
                                ''You do not have permission to perform this action''))
      \<and> delete_event d ru i = (d, respond 403 (StatusMessage ''fail''
                                ''You do not have permission to perform this action'')))
   \<and> (user_role ru \<noteq> ''ATTENDEE'' \<and> i \<notin> event_id ` set (events d) \<longrightarrow>
      put_event d ru i b = (d, respond 404 (Message ''Event not found''))
      \<and> delete_event d ru i = (d, respond 404 (Message ''Event not found'')))
   \<and> (user_role ru \<noteq> ''ATTENDEE'' \<and> event_findUnique d i = Some ev
        \<and> event_organizerId ev \<noteq> user_id ru \<and> user_role ru \<noteq> ''ADMIN'' \<longrightarrow>
      put_event d ru i b = (d, respond 403 (Message
          ''Forbidden: You do not have permission to update this event''))
      \<and> delete_event d ru i = (d, respond 403 (Message
          ''Forbidden: You do not have permission to delete this event'')))
   \<and> (user_role ru \<noteq> ''ATTENDEE'' \<and> event_findUnique d i = Some ev
        \<and> (event_organizerId ev = user_id ru \<or> user_role ru = ''ADMIN'') \<longrightarrow>
      snd (put_event d ru i b)
        = respond 200 (MessageEvent ''Event updated successfully'' (apply_patch b ev))
      \<and> snd (delete_event d ru i) = respond 200 (Message ''Event deleted successfully''))"
proof (intro conjI impI)
  assume "user_role ru = ''ATTENDEE''"
  then show "put_event d ru i b = (d, respond 403 (StatusMessage ''fail''
                                ''You do not have permission to perform this action''))"
    and "delete_event d ru i = (d, respond 403 (StatusMessage ''fail''
                                ''You do not have permission to perform this action''))"
    by (simp_all add: put_event_def delete_event_def errorHandler_no_permission)
next
  assume "user_role ru \<noteq> ''ATTENDEE'' \<and> i \<notin> event_id ` set (events d)"
  then have "user_role ru \<noteq> ''ATTENDEE''" and "event_findUnique d i = None"
    by (simp_all add: event_findUnique_None)
  then show "put_event d ru i b = (d, respond 404 (Message ''Event not found''))"
    and "delete_event d ru i = (d, respond 404 (Message ''Event not found''))"
    by (simp_all add: put_event_def delete_event_def)
next
  assume "user_role ru \<noteq> ''ATTENDEE'' \<and> event_findUnique d i = Some ev
        \<and> event_organizerId ev \<noteq> user_id ru \<and> user_role ru \<noteq> ''ADMIN''"
  then show "put_event d ru i b = (d, respond 403 (Message
          ''Forbidden: You do not have permission to update this event''))"
    and "delete_event d ru i = (d, respond 403 (Message
          ''Forbidden: You do not have permission to delete this event''))"
    by (simp_all add: put_event_def delete_event_def)
next
  assume h: "user_role ru \<noteq> ''ATTENDEE'' \<and> event_findUnique d i = Some ev
        \<and> (event_organizerId ev = user_id ru \<or> user_role ru = ''ADMIN'')"
  then show "snd (put_event d ru i b)
        = respond 200 (MessageEvent ''Event updated successfully'' (apply_patch b ev))"
    by (auto simp: put_event_def Let_def)
  from h show "snd (delete_event d ru i) = respond 200 (Message ''Event deleted successfully'')"
    by (auto simp: delete_event_def Let_def)
qed

theorem event_update_delete_authorization_witness:
  "put_event example_db alice 1 example_patch
     = (example_db, respond 403 (StatusMessage ''fail''
                      ''You do not have permission to perform this action''))
   \<and> delete_event example_db alice 99
     = (example_db, respond 403 (StatusMessage ''fail''
                      ''You do not have permission to perform this action''))
   \<and> put_event example_db olga 99 example_patch
     = (example_db, respond 404 (Message ''Event not found''))
   \<and> delete_event example_db adam 99
     = (example_db, respond 404 (Message ''Event not found''))
   \<and> put_event example_db oscar 1 example_patch
     = (example_db, respond 403 (Message
          ''Forbidden: You do not have permission to update this event''))
   \<and> delete_event example_db oscar 1
     = (example_db, respond 403 (Message
          ''Forbidden: You do not have permission to delete this event''))
   \<and> snd (put_event example_db adam 1 example_patch)
     = respond 200 (MessageEvent ''Event updated successfully'' (apply_patch example_patch party))
   \<and> snd (delete_event example_db olga 1)
     = respond 200 (Message ''Event deleted successfully'')"
proof -
  have a: "user_role alice = ''ATTENDEE''"
    by (simp add: alice_def)
  have n1: "user_role olga \<noteq> ''ATTENDEE'' \<and> 99 \<notin> event_id ` set (events example_db)"
    and n2: "user_role adam \<noteq> ''ATTENDEE'' \<and> 99 \<notin> event_id ` set (events example_db)"
    by (simp_all add: olga_def adam_def example_db_def party_def)
  have f: "user_role oscar \<noteq> ''ATTENDEE'' \<and> event_findUnique example_db 1 = Some party
        \<and> event_organizerId party \<noteq> user_id oscar \<and> user_role oscar \<noteq> ''ADMIN''"
    by (simp add: oscar_def event_findUnique_def example_db_def party_def)
  have s1: "user_role adam \<noteq> ''ATTENDEE'' \<and> event_findUnique example_db 1 = Some party
        \<and> (event_organizerId party = user_id adam \<or> user_role adam = ''ADMIN'')"
    and s2: "user_role olga \<noteq> ''ATTENDEE'' \<and> event_findUnique example_db 1 = Some party
        \<and> (event_organizerId party = user_id olga \<or> user_role olga = ''ADMIN'')"
    by (simp_all add: adam_def olga_def event_findUnique_def example_db_def party_def)
  note t = event_update_delete_authorization
  from t [where ru = alice and d = example_db and i = 1 and b = example_patch,
          THEN conjunct1, THEN mp, OF a]
    t [where ru = alice and d = example_db and i = 99,
          THEN conjunct1, THEN mp, OF a]
    t [where ru = olga and d = example_db and i = 99 and b = example_patch,
          THEN conjunct2, THEN conjunct1, THEN mp, OF n1]
    t [where ru = adam and d = example_db and i = 99,
          THEN conjunct2, THEN conjunct1, THEN mp, OF n2]
    t [where ru = oscar and d = example_db and i = 1 and b = example_patch and ev = party,
          THEN conjunct2, THEN conjunct2, THEN conjunct1, THEN mp, OF f]
    t [where ru = adam and d = example_db and i = 1 and b = example_patch and ev = party,
          THEN conjunct2, THEN conjunct2, THEN conjunct2, THEN mp, OF s1]
    t [where ru = olga and d = example_db and i = 1 and ev = party,
          THEN conjunct2, THEN conjunct2, THEN conjunct2, THEN mp, OF s2]
  show ?thesis
    by simp
qed

subsection \<open>Registering for an event\<close>

lemma errorHandler_event_not_found:
  "errorHandler (AppError ''Event not found'' 404)
   = respond 404 (StatusMessage ''fail'' ''Resource not found.'')"
  by (simp add: errorHandler_def AppError_def)

lemma errorHandler_already_registered:
  "errorHandler (AppError ''You are already registered for this event'' 400)
   = respond 400 (StatusMessage ''fail'' ''You are already registered for this event'')"
  by (simp add: errorHandler_def AppError_def)


lemma foldr_max_upper: "x \<in> set ids \<Longrightarrow> x \<le> foldr max ids (0::int)"
  by (induction ids) auto

lemma fresh_id_new: "fresh_id ids \<notin> set ids"
proof
  assume "fresh_id ids \<in> set ids"
  then have "fresh_id ids \<le> foldr max ids 0" by (rule foldr_max_upper)
  then show False by (simp add: fresh_id_def)
qed

lemma find_filter_Nil: "find P xs = None \<longleftrightarrow> filter P xs = []"
  by (induction xs) simp_all


lemma register_unknown_event:
  assumes "i \<notin> event_id ` set (events d)"
  shows "post_event_register d ru i
         = (d, respond 404 (StatusMessage ''fail'' ''Resource not found.''))"
  using assms
  by (simp add: post_event_register_def event_findUnique_None [symmetric]
        errorHandler_event_not_found)

lemma register_duplicate:
  assumes "i \<in> event_id ` set (events d)" and "regs_of d (user_id ru) i \<noteq> []"
  shows "post_event_register d ru i
         = (d, respond 400 (StatusMessage ''fail''
                  ''You are already registered for this event''))"
proof -
  from assms(1) obtain ev where "event_findUnique d i = Some ev"
    using event_findUnique_None [of d i] by (cases "event_findUnique d i") auto
  moreover from assms(2) obtain r where "registration_findUnique d (user_id ru) i = Some r"
    unfolding registration_findUnique_def regs_of_def
    using find_filter_Nil [of "\<lambda>r. reg_userId r = user_id ru \<and> reg_eventId r = i"
            "registrations d"]
    by (cases "find (\<lambda>r. reg_userId r = user_id ru \<and> reg_eventId r = i) (registrations d)")
       auto
  ultimately show ?thesis
    by (simp add: post_event_register_def errorHandler_already_registered)
qed

lemma register_new:
  assumes "i \<in> event_id ` set (events d)" and "regs_of d (user_id ru) i = []"
  shows "post_event_register d ru i
         = (d\<lparr> registrations := registrations d @
                 [\<lparr> reg_id = fresh_id (map reg_id (registrations d)),
                    reg_userId = user_id ru, reg_eventId = i \<rparr>] \<rparr>,
            respond 201 (RegistrationBody
                 \<lparr> reg_id = fresh_id (map reg_id (registrations d)),
                   reg_userId = user_id ru, reg_eventId = i \<rparr>))"
proof -
  from assms(1) obtain ev where "event_findUnique d i = Some ev"
    using event_findUnique_None [of d i] by (cases "event_findUnique d i") auto
  moreover from assms(2) have "registration_findUnique d (user_id ru) i = None"
    unfolding registration_findUnique_def regs_of_def by (simp add: find_filter_Nil)
  ultimately show ?thesis
    by (simp add: post_event_register_def registration_create_def Let_def)
qed

text \<open>
  Claim C5. Registering for an event that does not exist is answered 404; when the pair
  of user and event already has a registration row, the answer is 400; otherwise one row
  with a new id is appended and the answer is 201, and a second request for the pair is
  then answered 400. When the pair has at most one row to begin with and the event
  exists, exactly one row for the pair exists after two requests in a row.
\<close>

theorem event_registration_unique:
  "(i \<notin> event_id ` set (events d) \<longrightarrow>
      post_event_register d ru i
        = (d, respond 404 (StatusMessage ''fail'' ''Resource not found.'')))
   \<and> (i \<in> event_id ` set (events d) \<and> regs_of d (user_id ru) i \<noteq> [] \<longrightarrow>
      post_event_register d ru i
        = (d, respond 400 (StatusMessage ''fail''
                 ''You are already registered for this event'')))
   \<and> (i \<in> event_id ` set (events d) \<and> regs_of d (user_id ru) i = [] \<longrightarrow>
      (\<exists>r. post_event_register d ru i
             = (d\<lparr> registrations := registrations d @ [r] \<rparr>,
                respond 201 (RegistrationBody r))
           \<and> reg_userId r = user_id ru \<and> reg_eventId r = i
           \<and> reg_id r \<notin> reg_id ` set (registrations d)
           \<and> regs_of (fst (post_event_register d ru i)) (user_id ru) i = [r]
           \<and> post_event_register (fst (post_event_register d ru i)) ru i
             = (fst (post_event_register d ru i),
                respond 400 (StatusMessage ''fail''
                  ''You are already registered for this event''))))
   \<and> (i \<in> event_id ` set (events d) \<and> length (regs_of d (user_id ru) i) \<le> 1 \<longrightarrow>
      length (regs_of (fst (post_event_register
                (fst (post_event_register d ru i)) ru i)) (user_id ru) i) = 1)"
proof (intro conjI impI)
  assume "i \<notin> event_id ` set (events d)"
  then show "post_event_register d ru i
        = (d, respond 404 (StatusMessage ''fail'' ''Resource not found.''))"
    by (rule register_unknown_event)
next
  assume "i \<in> event_id ` set (events d) \<and> regs_of d (user_id ru) i \<noteq> []"
  then show "post_event_register d ru i
        = (d, respond 400 (StatusMessage ''fail''
                 ''You are already registered for this event''))"
    by (simp add: register_duplicate)
next
  assume h: "i \<in> event_id ` set (events d) \<and> regs_of d (user_id ru) i = []"
  let ?r = "\<lparr> reg_id = fresh_id (map reg_id (registrations d)),
              reg_userId = user_id ru, reg_eventId = i \<rparr>"
  let ?d' = "d\<lparr> registrations := registrations d @ [?r] \<rparr>"
  from h have run: "post_event_register d ru i = (?d', respond 201 (RegistrationBody ?r))"
    by (simp add: register_new)
  have fresh: "reg_id ?r \<notin> reg_id ` set (registrations d)"
    using fresh_id_new [of "map reg_id (registrations d)"] by simp
  from h have rows: "regs_of ?d' (user_id ru) i = [?r]"
    by (simp add: regs_of_def)
  from h have "i \<in> event_id ` set (events ?d')" by simp
  with rows have "post_event_register ?d' ru i
        = (?d', respond 400 (StatusMessage ''fail''
                  ''You are already registered for this event''))"
    by (intro register_duplicate) simp_all
  with run fresh rows
  show "\<exists>r. post_event_register d ru i
             = (d\<lparr> registrations := registrations d @ [r] \<rparr>,
                respond 201 (RegistrationBody r))
           \<and> reg_userId r = user_id ru \<and> reg_eventId r = i
           \<and> reg_id r \<notin> reg_id ` set (registrations d)
           \<and> regs_of (fst (post_event_register d ru i)) (user_id ru) i = [r]
           \<and> post_event_register (fst (post_event_register d ru i)) ru i
             = (fst (post_event_register d ru i),
                respond 400 (StatusMessage ''fail''
                  ''You are already registered for this event''))"
    by (intro exI [of _ ?r]) simp
next
  assume h: "i \<in> event_id ` set (events d) \<and> length (regs_of d (user_id ru) i) \<le> 1"
  show "length (regs_of (fst (post_event_register
                (fst (post_event_register d ru i)) ru i)) (user_id ru) i) = 1"
  proof (cases "regs_of d (user_id ru) i = []")
    case True
    let ?r = "\<lparr> reg_id = fresh_id (map reg_id (registrations d)),
                reg_userId = user_id ru, reg_eventId = i \<rparr>"
    let ?d' = "d\<lparr> registrations := registrations d @ [?r] \<rparr>"
    from h True have run: "post_event_register d ru i
          = (?d', respond 201 (RegistrationBody ?r))"
      by (simp add: register_new)
    from True have rows: "regs_of ?d' (user_id ru) i = [?r]"
      by (simp add: regs_of_def)
    from h have "i \<in> event_id ` set (events ?d')" by simp
    with rows have "post_event_register ?d' ru i
          = (?d', respond 400 (StatusMessage ''fail''
                    ''You are already registered for this event''))"
      by (intro register_duplicate) simp_all
    with run rows show ?thesis by simp
  next
    case False
    with h have "post_event_register d ru i
          = (d, respond 400 (StatusMessage ''fail''
                    ''You are already registered for this event''))"
      by (simp add: register_duplicate)
    moreover from False h have "length (regs_of d (user_id ru) i) = 1"
      by (cases "regs_of d (user_id ru) i") simp_all
    ultimately show ?thesis by simp
  qed
qed

theorem event_registration_unique_witness:
  "post_event_register example_db olga 99
     = (example_db, respond 404 (StatusMessage ''fail'' ''Resource not found.''))
   \<and> post_event_register example_db alice 1
     = (example_db, respond 400 (StatusMessage ''fail''
                      ''You are already registered for this event''))
   \<and> post_event_register example_db olga 1
     = (example_db\<lparr> registrations := registrations example_db @
            [\<lparr> reg_id = 2, reg_userId = 2, reg_eventId = 1 \<rparr>] \<rparr>,
        respond 201 (RegistrationBody \<lparr> reg_id = 2, reg_userId = 2, reg_eventId = 1 \<rparr>))
   \<and> length (regs_of (fst (post_event_register
                (fst (post_event_register example_db olga 1)) olga 1)) 2 1) = 1"
proof -
  have h1: "99 \<notin> event_id ` set (events example_db)"
    by (simp add: example_db_def party_def)
  have h2: "1 \<in> event_id ` set (events example_db)
            \<and> regs_of example_db (user_id alice) 1 \<noteq> []"
    by (simp add: example_db_def party_def alice_def regs_of_def)
  have h3: "1 \<in> event_id ` set (events example_db)
            \<and> regs_of example_db (user_id olga) 1 = []"
    by (simp add: example_db_def party_def olga_def regs_of_def)
  have h4: "1 \<in> event_id ` set (events example_db)
            \<and> length (regs_of example_db (user_id olga) 1) \<le> 1"
    by (simp add: example_db_def party_def olga_def regs_of_def)
  note t = event_registration_unique
  from t [where d = example_db and ru = olga and i = 1,
          THEN conjunct2, THEN conjunct2, THEN conjunct1, THEN mp, OF h3]
  obtain r where run: "post_event_register example_db olga 1
             = (example_db\<lparr> registrations := registrations example_db @ [r] \<rparr>,
                respond 201 (RegistrationBody r))"
    by blast
  have "post_event_register example_db olga 1
     = (example_db\<lparr> registrations := registrations example_db @
            [\<lparr> reg_id = 2, reg_userId = 2, reg_eventId = 1 \<rparr>] \<rparr>,
        respond 201 (RegistrationBody \<lparr> reg_id = 2, reg_userId = 2, reg_eventId = 1 \<rparr>))"
    by (simp add: post_event_register_def event_findUnique_def registration_findUnique_def
          registration_create_def fresh_id_def Let_def example_db_def party_def olga_def)
  with run
    t [where d = example_db and ru = olga and i = 99, THEN conjunct1, THEN mp, OF h1]
    t [where d = example_db and ru = alice and i = 1,
       THEN conjunct2, THEN conjunct1, THEN mp, OF h2]
    t [where d = example_db and ru = olga and i = 1,
       THEN conjunct2, THEN conjunct2, THEN conjunct2, THEN mp, OF h4]
  show ?thesis
    by (simp add: olga_def)
qed


subsection \<open>Feedback\<close>










subsection \<open>Sort direction of the event list\<close>

lemma of_char_bound: "(of_char c :: nat) < 256"
  by (cases c) (simp add: horner_sum_eq_sum)

lemma lower_char_eq_ascii:
  assumes "(of_char x :: nat) = m" and "97 \<le> m" and "m \<le> 122"
  shows "lower_char c = x \<longleftrightarrow> (of_char c :: nat) = m \<or> (of_char c :: nat) = m - 32"
proof -
  have b: "(of_char c :: nat) < 256" by (rule of_char_bound)
  have x: "x = char_of m" using assms(1) by (metis char_of_char)
  show ?thesis
  proof (cases "(65 \<le> (of_char c :: nat) \<and> (of_char c :: nat) \<le> 90)
       \<or> (192 \<le> (of_char c :: nat) \<and> (of_char c :: nat) \<le> 222 \<and> (of_char c :: nat) \<noteq> 215)")
    case True
    then have "lower_char c = char_of ((of_char c :: nat) + 32)"
      unfolding lower_char_def Let_def by (simp only: if_True)
    moreover have "(char_of ((of_char c :: nat) + 32) = (char_of m :: char))
          \<longleftrightarrow> ((of_char c :: nat) + 32) mod 256 = m mod 256"
      by (simp add: char_of_eq_iff take_bit_eq_mod)
    ultimately show ?thesis using True assms(2,3) b x by auto
  next
    case False
    then have "lower_char c = c" unfolding lower_char_def Let_def by (simp only: if_False)
    moreover have "c = x \<longleftrightarrow> (of_char c :: nat) = m"
      using assms(1) by (metis of_char_eq_iff)
    ultimately show ?thesis using False assms(2,3) by auto
  qed
qed


lemma of_char_nat_eq: "(of_char x :: nat) = of_char y \<longleftrightarrow> x = y"
  by (rule of_char_eq_iff)

lemma lower_char_letter:
  assumes "(of_char lo :: nat) = m" and "97 \<le> m" and "m \<le> 122"
    and "(of_char up :: nat) = m - 32"
  shows "lower_char x = lo \<longleftrightarrow> x = lo \<or> x = up"
proof -
  from lower_char_eq_ascii [OF assms(1-3), of x]
  have "lower_char x = lo \<longleftrightarrow> (of_char x :: nat) = m \<or> (of_char x :: nat) = m - 32" .
  also have "(of_char x :: nat) = m \<longleftrightarrow> x = lo"
    using of_char_nat_eq [of x lo] assms(1) by simp
  also have "(of_char x :: nat) = m - 32 \<longleftrightarrow> x = up"
    using of_char_nat_eq [of x up] assms(4) by simp
  finally show ?thesis .
qed

lemma lower_char_desc:
  "lower_char x = CHR ''d'' \<longleftrightarrow> x = CHR ''d'' \<or> x = CHR ''D''"
  "lower_char x = CHR ''e'' \<longleftrightarrow> x = CHR ''e'' \<or> x = CHR ''E''"
  "lower_char x = CHR ''s'' \<longleftrightarrow> x = CHR ''s'' \<or> x = CHR ''S''"
  "lower_char x = CHR ''c'' \<longleftrightarrow> x = CHR ''c'' \<or> x = CHR ''C''"
  by (rule lower_char_letter [where m = 100], simp_all)
     (rule lower_char_letter [where m = 101], simp_all,
      rule lower_char_letter [where m = 115], simp_all,
      rule lower_char_letter [where m = 99], simp_all)

lemma toLowerCase_desc:
  "toLowerCase s = ''desc'' \<longleftrightarrow>
     (\<exists>a b c e. s = [a, b, c, e]
        \<and> (a = CHR ''d'' \<or> a = CHR ''D'') \<and> (b = CHR ''e'' \<or> b = CHR ''E'')
        \<and> (c = CHR ''s'' \<or> c = CHR ''S'') \<and> (e = CHR ''c'' \<or> e = CHR ''C''))"
proof
  assume "toLowerCase s = ''desc''"
  then obtain a b c e where "s = [a, b, c, e]" and "lower_char a = CHR ''d''"
    and "lower_char b = CHR ''e''" and "lower_char c = CHR ''s''" and "lower_char e = CHR ''c''"
    unfolding toLowerCase_def map_eq_Cons_conv by blast
  then show "\<exists>a b c e. s = [a, b, c, e]
        \<and> (a = CHR ''d'' \<or> a = CHR ''D'') \<and> (b = CHR ''e'' \<or> b = CHR ''E'')
        \<and> (c = CHR ''s'' \<or> c = CHR ''S'') \<and> (e = CHR ''c'' \<or> e = CHR ''C'')"
    by (simp add: lower_char_desc)
next
  assume "\<exists>a b c e. s = [a, b, c, e]
        \<and> (a = CHR ''d'' \<or> a = CHR ''D'') \<and> (b = CHR ''e'' \<or> b = CHR ''E'')
        \<and> (c = CHR ''s'' \<or> c = CHR ''S'') \<and> (e = CHR ''c'' \<or> e = CHR ''C'')"
  then obtain a b c e where s: "s = [a, b, c, e]"
    and "lower_char a = CHR ''d''" and "lower_char b = CHR ''e''"
    and "lower_char c = CHR ''s''" and "lower_char e = CHR ''c''"
    unfolding lower_char_desc by blast
  then show "toLowerCase s = ''desc''"
    by (simp add: toLowerCase_def)
qed

lemma build_orderBy_Some:
  "build_orderBy sortBy sortOrder = Some (k, dir) \<Longrightarrow>
     q_truthy sortBy \<and> k \<noteq> ''__proto__'' \<and> dir = sort_direction sortOrder"
  by (auto simp: build_orderBy_def split: option.splits if_splits)

text \<open>
  Claim C7, as the code has it. When the list handler passes an ordering to the store, its
  direction is \<open>desc\<close> exactly when \<open>sortOrder\<close> is given and its string is \<open>desc\<close> in any
  mixture of upper and lower case; in every other case, also without \<open>sortOrder\<close>, the
  direction is \<open>asc\<close>. An ordering is passed only for a truthy \<open>sortBy\<close>.
\<close>

theorem sort_direction_case_insensitive:
  assumes "arg_orderBy (get_events_args q) = Some (k, dir)"
  shows "(dir = ''desc'' \<longleftrightarrow>
           (\<exists>v a b c e. q_sortOrder q = Some v \<and> q_toString v = [a, b, c, e]
              \<and> (a = CHR ''d'' \<or> a = CHR ''D'') \<and> (b = CHR ''e'' \<or> b = CHR ''E'')
              \<and> (c = CHR ''s'' \<or> c = CHR ''S'') \<and> (e = CHR ''c'' \<or> e = CHR ''C'')))
         \<and> (dir = ''desc'' \<or> dir = ''asc'')
         \<and> q_truthy (q_sortBy q)"
proof -
  from assms have "build_orderBy (q_sortBy q) (q_sortOrder q) = Some (k, dir)"
    by (simp add: get_events_args_def)
  then have truthy: "q_truthy (q_sortBy q)" and dir: "dir = sort_direction (q_sortOrder q)"
    by (simp_all add: build_orderBy_Some)
  have "dir = ''desc'' \<longleftrightarrow>
          (\<exists>v. q_sortOrder q = Some v \<and> toLowerCase (q_toString v) = ''desc'')"
    by (cases "q_sortOrder q") (simp_all add: dir sort_direction_def)
  then have "dir = ''desc'' \<longleftrightarrow>
           (\<exists>v a b c e. q_sortOrder q = Some v \<and> q_toString v = [a, b, c, e]
              \<and> (a = CHR ''d'' \<or> a = CHR ''D'') \<and> (b = CHR ''e'' \<or> b = CHR ''E'')
              \<and> (c = CHR ''s'' \<or> c = CHR ''S'') \<and> (e = CHR ''c'' \<or> e = CHR ''C''))"
    unfolding toLowerCase_desc by blast
  moreover have "dir = ''desc'' \<or> dir = ''asc''"
    by (simp add: dir sort_direction_def)
  ultimately show ?thesis
    using truthy by blast
qed

theorem sort_direction_case_insensitive_witness:
  "arg_orderBy (get_events_args
      \<lparr> q_category = None, q_location = None, q_sortBy = Some (QStr ''date''),
        q_sortOrder = Some (QStr ''Desc'') \<rparr>) = Some (''date'', ''desc'')
   \<and> q_truthy (Some (QStr ''date''))"
proof -
  have h: "arg_orderBy (get_events_args
      \<lparr> q_category = None, q_location = None, q_sortBy = Some (QStr ''date''),
        q_sortOrder = Some (QStr ''Desc'') \<rparr>) = Some (''date'', ''desc'')"
    by code_simp
  from sort_direction_case_insensitive [OF h] h show ?thesis
    by simp
qed

text \<open>
  With \<open>sortOrder=DESC\<close>, which is not the string \<open>desc\<close>, the ordering passed to the store
  is descending.
\<close>

theorem sort_direction_upper_case_desc:
  "arg_orderBy (get_events_args
      \<lparr> q_category = None, q_location = None, q_sortBy = Some (QStr ''date''),
        q_sortOrder = Some (QStr ''DESC'') \<rparr>) = Some (''date'', ''desc'')
   \<and> QStr ''DESC'' \<noteq> QStr ''desc''"
  by code_simp

subsection \<open>Paginated event list\<close>






end
